theory Spec2Isabelle
  imports Complex_Main
begin

section \<open>Numbers, timestamps and candles\<close>

text \<open>
  JavaScript numbers are modelled as exact rationals. A \<^verbatim>\<open>Date\<close> is modelled by its time
  value, the milliseconds since the epoch, and only valid dates are represented. The
  scanner keeps a candle's \<^verbatim>\<open>time\<close> as the ISO-8601 string of such a date; the rendering
  \<^verbatim>\<open>toISOString\<close> is injective on valid dates, so the string comparison \<^verbatim>\<open>!==\<close> and the
  \<^verbatim>\<open>Set\<close> of strings in \<^verbatim>\<open>addHistory\<close> are comparison and membership of time values.
  That holds for the strings the scanner renders itself (the candles of \<open>updateTick\<close> and
  the Binance warm-up); a warm-up string in another format for the same instant is a
  different string to the code and the same time to the model. Sums and means are exact
  here and rounded to doubles in the code.
\<close>

type_synonym symbol = string

record candle =
  time :: int
  "open" :: rat
  high :: rat
  low :: rat
  close :: rat

text \<open>The remainder operator \<^verbatim>\<open>%\<close> of JavaScript truncates towards zero.\<close>

definition js_rem :: "int \<Rightarrow> int \<Rightarrow> int" where
  "js_rem a b = (if 0 \<le> a then a mod \<bar>b\<bar> else - ((- a) mod \<bar>b\<bar>))"

text \<open>
  \<^verbatim>\<open>getMinutes\<close> and \<^verbatim>\<open>setMinutes\<close> work on local time. A \<open>zone\<close> gives the offset of
  the local zone in milliseconds twice: \<open>utcOffset\<close> is the offset in force at an instant
  (local time is the instant plus that offset), and \<open>localOffset\<close> is the offset with
  which a local time value is read back as an instant. The two differ around a change of
  the offset: a local time that occurs twice is read with the offset before the change.
  \<open>setMinutes z t m\<close> is \<^verbatim>\<open>setMinutes(m, 0, 0)\<close>: the local time of \<open>t\<close> with the minutes set
  to \<open>m\<close> and the seconds and milliseconds set to zero, read back as an instant.
\<close>

record zone =
  utcOffset :: "int \<Rightarrow> int"
  localOffset :: "int \<Rightarrow> int"

definition getMinutes :: "zone \<Rightarrow> int \<Rightarrow> int" where
  "getMinutes z t = ((t + utcOffset z t) div 60000) mod 60"

definition setMinutes :: "zone \<Rightarrow> int \<Rightarrow> int \<Rightarrow> int" where
  "setMinutes z t m =
     (let localTime = ((t + utcOffset z t) div 3600000) * 3600000 + m * 60000
      in localTime - localOffset z localTime)"

text \<open>A zone whose offset never changes, and UTC.\<close>

definition fixed_zone :: "int \<Rightarrow> zone" where
  "fixed_zone k = \<lparr> utcOffset = (\<lambda>t. k), localOffset = (\<lambda>t. k) \<rparr>"

definition utc :: zone where
  "utc = fixed_zone 0"

text \<open>
  \<^verbatim>\<open>parseFloat(x.toFixed(fd))\<close>: the nearest multiple of \<open>10^-fd\<close>, a tie going to the larger
  magnitude; a number of magnitude \<open>10^21\<close> or more is printed in full.
\<close>

definition toFixed :: "rat \<Rightarrow> nat \<Rightarrow> rat" where
  "toFixed x fd =
     (if 10 ^ 21 \<le> \<bar>x\<bar> then x
      else sgn x * of_int \<lfloor>\<bar>x\<bar> * 10 ^ fd + 1 / 2\<rfloor> / 10 ^ fd)"

text \<open>A \<^verbatim>\<open>null\<close> operand of a comparison or a product counts as zero.\<close>

fun num :: "rat option \<Rightarrow> rat" where
  "num None = 0"
| "num (Some x) = x"

fun show_nat :: "nat \<Rightarrow> string" where
  "show_nat n =
     (if n < 10 then [''0123456789'' ! n]
      else show_nat (n div 10) @ [''0123456789'' ! (n mod 10)])"

section \<open>TechAnalysis\<close>

text \<open>
  \<open>sma\<close> and \<open>atr\<close> are called with the periods 20, 200 and 14 only; the model is for a
  positive period.
\<close>

definition sma :: "rat list \<Rightarrow> nat \<Rightarrow> rat option" where
  "sma data period =
     (if length data < period then None
      else Some (sum_list (drop (length data - period) data) / of_nat period))"

definition trueRange :: "candle \<Rightarrow> candle \<Rightarrow> rat" where
  "trueRange prev c =
     max (high c - low c) (max \<bar>high c - close prev\<bar> \<bar>low c - close prev\<bar>)"

definition atr :: "candle list \<Rightarrow> nat \<Rightarrow> rat option" where
  "atr cs period =
     (if length cs < period + 1 then None
      else Some (sum_list (map (\<lambda>i. trueRange (cs ! (i - 1)) (cs ! i))
                   [length cs - period ..< length cs]) / of_nat period))"

datatype pattern = BULLISH | BEARISH | NEUTRAL

definition bodySize :: "candle \<Rightarrow> rat" where
  "bodySize current = \<bar>close current - open current\<bar>"

definition wickTop :: "candle \<Rightarrow> rat" where
  "wickTop current = high current - max (open current) (close current)"

definition wickBottom :: "candle \<Rightarrow> rat" where
  "wickBottom current = min (open current) (close current) - low current"

definition isPinBarBullish :: "candle \<Rightarrow> bool" where
  "isPinBarBullish current \<longleftrightarrow>
     wickBottom current > bodySize current * 2 \<and> wickTop current < bodySize current"

definition isPinBarBearish :: "candle \<Rightarrow> bool" where
  "isPinBarBearish current \<longleftrightarrow>
     wickTop current > bodySize current * 2 \<and> wickBottom current < bodySize current"

definition isBullishEngulfing :: "candle \<Rightarrow> candle \<Rightarrow> bool" where
  "isBullishEngulfing prev current \<longleftrightarrow>
     close current > open current \<and> close prev < open prev \<and>
     close current > open prev \<and> open current < close prev"

definition isBearishEngulfing :: "candle \<Rightarrow> candle \<Rightarrow> bool" where
  "isBearishEngulfing prev current \<longleftrightarrow>
     close current < open current \<and> close prev > open prev \<and>
     close current < close prev \<and> open current > open prev"

definition classify :: "bool \<Rightarrow> bool \<Rightarrow> bool \<Rightarrow> bool \<Rightarrow> pattern" where
  "classify pinBull bullEng pinBear bearEng =
     (if pinBull \<or> bullEng then BULLISH
      else if pinBear \<or> bearEng then BEARISH
      else NEUTRAL)"

text \<open>
  \<open>detectPattern\<close> reads the last two candles. \<open>None\<close> is the \<^verbatim>\<open>TypeError\<close> of reading a
  field of \<^verbatim>\<open>undefined\<close>: with no candle at all, or with one candle only when the
  conjunctions of the engulfing tests reach \<^verbatim>\<open>prev.close\<close> (they stop before it when
  the current candle has equal open and close).
\<close>

definition detectPattern :: "candle list \<Rightarrow> pattern option" where
  "detectPattern cs =
     (if cs = [] then None
      else
        let current = cs ! (length cs - 1) in
        if length cs < 2 then
          (if close current > open current \<or> close current < open current then None
           else Some (classify (isPinBarBullish current) False (isPinBarBearish current) False))
        else
          let prev = cs ! (length cs - 2) in
          Some (classify (isPinBarBullish current) (isBullishEngulfing prev current)
                  (isPinBarBearish current) (isBearishEngulfing prev current)))"

datatype sweep = BEARISH_SWEEP | BULLISH_SWEEP | NONE

text \<open>\<^verbatim>\<open>candles.slice(-lookback, -1)\<close>: the last \<open>lookback\<close> candles without the current one.\<close>

definition slice_lookback :: "candle list \<Rightarrow> nat \<Rightarrow> candle list" where
  "slice_lookback cs lookback =
     butlast (drop (if lookback = 0 then 0 else length cs - lookback) cs)"

fun Math_max :: "rat \<Rightarrow> rat list \<Rightarrow> rat" where
  "Math_max x [] = x"
| "Math_max x (y # ys) = Math_max (max x y) ys"

fun Math_min :: "rat \<Rightarrow> rat list \<Rightarrow> rat" where
  "Math_min x [] = x"
| "Math_min x (y # ys) = Math_min (min x y) ys"

text \<open>
  With an empty window \<^verbatim>\<open>Math.max()\<close> is \<open>-Infinity\<close> and \<^verbatim>\<open>Math.min()\<close> is \<open>Infinity\<close>: the
  close is never below the one nor above the other, and the result is \<open>NONE\<close>. With no
  candle at all reading \<^verbatim>\<open>current.high\<close> throws (\<open>None\<close>).
\<close>

definition detectSweep :: "candle list \<Rightarrow> nat \<Rightarrow> sweep option" where
  "detectSweep cs lookback =
     (if cs = [] then None
      else
        let current = cs ! (length cs - 1) in
        case slice_lookback cs lookback of
          [] \<Rightarrow> Some NONE
        | w # ws \<Rightarrow>
            let prevHigh = Math_max (high w) (map high ws);
                prevLow = Math_min (low w) (map low ws)
            in if high current > prevHigh \<and> close current < prevHigh then Some BEARISH_SWEEP
               else if low current < prevLow \<and> close current > prevLow then Some BULLISH_SWEEP
               else Some NONE)"

section \<open>MarketManager\<close>

text \<open>
  The two dictionaries of the manager. A symbol that was never initialised has no entry
  in \<open>candles\<close>; \<open>history\<close> reads the array of a symbol after \<open>initSymbol\<close>.
\<close>

record market =
  candles :: "symbol \<rightharpoonup> candle list"
  activeCandle :: "symbol \<rightharpoonup> candle"

definition initSymbol :: "symbol \<Rightarrow> market \<Rightarrow> market" where
  "initSymbol smb m =
     (case candles m smb of
        None \<Rightarrow> m\<lparr>candles := (candles m)(smb \<mapsto> [])\<rparr>
      | Some _ \<Rightarrow> m)"

definition history :: "market \<Rightarrow> symbol \<Rightarrow> candle list" where
  "history m smb = (case candles m smb of None \<Rightarrow> [] | Some h \<Rightarrow> h)"

text \<open>
  \<open>addHistory\<close>: the set of existing times is taken once, before the loop; the sort is by
  the parsed date and stable; \<^verbatim>\<open>slice(-300)\<close> keeps the last 300.
\<close>

definition addHistory :: "symbol \<Rightarrow> candle list \<Rightarrow> market \<Rightarrow> market" where
  "addHistory smb historyCandles m =
     (let m1 = initSymbol smb m;
          existingTimes = set (map time (history m1 smb));
          pushed = history m1 smb @ filter (\<lambda>c. time c \<notin> existingTimes) historyCandles;
          sorted = sort_key time pushed;
          kept = (if length sorted > 300 then drop (length sorted - 300) sorted else sorted)
      in m1\<lparr>candles := (candles m1)(smb \<mapsto> kept)\<rparr>)"

datatype direction = BUY | SELL | NO_SIGNAL

record signal_output =
  symbol :: symbol
  timeframe :: string
  trend :: string
  signal :: direction
  entry_price :: rat
  stop_loss :: rat
  tp1 :: rat
  tp2 :: rat
  tp3 :: rat
  strength_score :: nat
  reason :: string

text \<open>
  What \<open>onCandleClose\<close> prints: a signal, or the object
  \<^verbatim>\<open>{symbol, status: "WAIT", trend, reason}\<close> (the trend is absent from the first one).
\<close>

datatype decision =
  Wait symbol "string option" string
| Signal signal_output

definition onCandleClose :: "symbol \<Rightarrow> candle \<Rightarrow> candle list \<Rightarrow> decision" where
  "onCandleClose smb c hist =
     (if length hist < 200 then
        Wait smb None (''Not enough data ('' @ show_nat (length hist) @ ''/200)'')
      else
        let closes = map close hist;
            sma20 = sma closes 20;
            sma200 = sma closes 200;
            atr14 = atr hist 14;
            pat = detectPattern hist;
            swp = detectSweep hist 10;
            isUptrend = (num sma20 > num sma200 \<and> close c > num sma200);
            isDowntrend = (num sma20 < num sma200 \<and> close c < num sma200);
            sig = (if isUptrend then
                     (if pat = Some BULLISH \<or> swp = Some BULLISH_SWEEP then BUY else NO_SIGNAL)
                   else if isDowntrend then
                     (if pat = Some BEARISH \<or> swp = Some BEARISH_SWEEP then SELL else NO_SIGNAL)
                   else NO_SIGNAL);
            rsn = (if sig = BUY then
                     ''Uptrend (Price > SMA200) + '' @
                       (if pat = Some BULLISH then ''Bullish Pattern'' else ''Liquidity Sweep'')
                   else if sig = SELL then
                     ''Downtrend (Price < SMA200) + '' @
                       (if pat = Some BEARISH then ''Bearish Pattern'' else ''Liquidity Sweep'')
                   else []);
            score = (if sig = NO_SIGNAL then 0 else 85)
        in
        if sig \<noteq> NO_SIGNAL then
          let slDist = num atr14 * (3 / 2);
              entry = close c;
              sl = (if sig = BUY then entry - slDist else entry + slDist);
              risk = \<bar>entry - sl\<bar>
          in Signal \<lparr>
               symbol = smb,
               timeframe = ''M5'',
               trend = (if isUptrend then ''UPTREND'' else ''DOWNTREND''),
               signal = sig,
               entry_price = toFixed entry 5,
               stop_loss = toFixed sl 5,
               tp1 = toFixed (if sig = BUY then entry + risk * (3 / 2) else entry - risk * (3 / 2)) 5,
               tp2 = toFixed (if sig = BUY then entry + risk * 2 else entry - risk * 2) 5,
               tp3 = toFixed (if sig = BUY then entry + risk * 3 else entry - risk * 3) 5,
               strength_score = score,
               reason = rsn \<rparr>
        else
          Wait smb (Some (if isUptrend then ''UP'' else if isDowntrend then ''DOWN'' else ''FLAT''))
            ''No valid reversal setup'')"

text \<open>
  The start of the five-minute bucket of a tick, as \<open>updateTick\<close> computes it:
  \<^verbatim>\<open>m5Start.setMinutes(Math.floor(tickTime.getMinutes() / 5) * 5, 0, 0)\<close>.
\<close>

definition m5Start :: "zone \<Rightarrow> int \<Rightarrow> int" where
  "m5Start tz tickTime = setMinutes tz tickTime (getMinutes tz tickTime div 5 * 5)"

definition newCandle :: "int \<Rightarrow> rat \<Rightarrow> candle" where
  "newCandle t price = \<lparr> time = t, open = price, high = price, low = price, close = price \<rparr>"

text \<open>
  \<open>updateTick\<close> returns the new state and, when the tick closed a candle, the closed
  candle with what \<open>onCandleClose\<close> printed for it. The closed candle object goes into
  the array and a fresh object becomes the active candle, so no later tick writes to a
  candle of the array.
\<close>

definition updateTick ::
  "zone \<Rightarrow> symbol \<Rightarrow> rat \<Rightarrow> int \<Rightarrow> market \<Rightarrow> market \<times> (candle \<times> decision) option" where
  "updateTick tz smb price t m =
     (let m1 = initSymbol smb m;
          m5TimeStr = m5Start tz t
      in case activeCandle m1 smb of
           None \<Rightarrow>
             (m1\<lparr>activeCandle := (activeCandle m1)(smb \<mapsto> newCandle m5TimeStr price)\<rparr>, None)
         | Some active \<Rightarrow>
             if time active \<noteq> m5TimeStr then
               let pushed = history m1 smb @ [active];
                   hist = (if length pushed > 300 then tl pushed else pushed)
               in (m1\<lparr>candles := (candles m1)(smb \<mapsto> hist),
                       activeCandle := (activeCandle m1)(smb \<mapsto> newCandle m5TimeStr price)\<rparr>,
                   Some (active, onCandleClose smb active hist))
             else
               (m1\<lparr>activeCandle := (activeCandle m1)(smb \<mapsto>
                     active\<lparr>close := price,
                            high := (if price > high active then price else high active),
                            low := (if price < low active then price else low active)\<rparr>)\<rparr>,
                None))"

definition empty_market :: market where
  "empty_market = \<lparr> candles = Map.empty, activeCandle = Map.empty \<rparr>"

section \<open>The stand-alone streamers\<close>

text \<open>
  \<^verbatim>\<open>oanda_streamer.js\<close> keeps one active candle per symbol, here a \<open>candle\<close> whose \<open>time\<close>
  is the field \<^verbatim>\<open>bucketTime\<close>. A line is a heartbeat, a price message (instrument, time,
  bid and ask prices, closeout bid and ask) or anything else, which changes nothing.
\<close>

definition M5_MS :: int where
  "M5_MS = 5 * 60 * 1000"

definition getM5BucketStart :: "int \<Rightarrow> int" where
  "getM5BucketStart ms = ms - js_rem ms M5_MS"

datatype line =
  HEARTBEAT
| PRICE symbol int "rat list" "rat list" "rat option" "rat option"
| OTHER

definition midPrice :: "rat list \<Rightarrow> rat list \<Rightarrow> rat option \<Rightarrow> rat option \<Rightarrow> rat option" where
  "midPrice bids asks closeoutBid closeoutAsk =
     (case (bids, asks) of
        (b # _, a # _) \<Rightarrow> Some ((b + a) / 2)
      | _ \<Rightarrow> (case (closeoutBid, closeoutAsk) of
                (Some b, Some a) \<Rightarrow> Some ((b + a) / 2)
              | _ \<Rightarrow> None))"

text \<open>
  \<open>processLine\<close> returns the new dictionary and the candle it printed, if any; the
  printed \<open>time\<close> is \<^verbatim>\<open>candle.bucketTime + M5_MS\<close>.
\<close>

fun processLine ::
  "line \<Rightarrow> (symbol \<rightharpoonup> candle) \<Rightarrow> (symbol \<rightharpoonup> candle) \<times> (symbol \<times> candle) option" where
  "processLine HEARTBEAT activeCandles = (activeCandles, None)"
| "processLine OTHER activeCandles = (activeCandles, None)"
| "processLine (PRICE smb t bids asks closeoutBid closeoutAsk) activeCandles =
     (let bucketStart = getM5BucketStart t in
      case midPrice bids asks closeoutBid closeoutAsk of
        None \<Rightarrow> (activeCandles, None)
      | Some price \<Rightarrow>
          (case activeCandles smb of
             None \<Rightarrow> (activeCandles(smb \<mapsto> newCandle bucketStart price), None)
           | Some c \<Rightarrow>
               if bucketStart > time c then
                 (activeCandles(smb \<mapsto> newCandle bucketStart price),
                  Some (smb, c\<lparr>time := time c + M5_MS\<rparr>))
               else
                 (activeCandles(smb \<mapsto>
                    c\<lparr>high := (if price > high c then price else high c),
                      low := (if price < low c then price else low c),
                      close := price\<rparr>),
                  None)))"

text \<open>
  The Binance streamer prints a kline that is marked closed, with the kline's close time
  \<^verbatim>\<open>T\<close> as its \<open>time\<close>.
\<close>

record kline =
  k_t :: int
  k_T :: int
  k_o :: rat
  k_h :: rat
  k_l :: rat
  k_c :: rat
  k_x :: bool

definition kline_output :: "kline \<Rightarrow> candle option" where
  "kline_output k =
     (if k_x k then Some \<lparr> time = k_T k, open = k_o k, high = k_h k, low = k_l k, close = k_c k \<rparr>
      else None)"

section \<open>Sequences of calls\<close>

text \<open>
  The adapters call \<open>addHistory\<close> for the warm-up and \<open>updateTick\<close> for every live
  price; \<open>run\<close> applies a sequence of such calls. \<open>merged\<close> is the array of \<open>addHistory\<close>
  after the sort and before the cut to 300 entries.
\<close>

datatype op = AddHistory symbol "candle list" | UpdateTick symbol rat int

fun step :: "zone \<Rightarrow> op \<Rightarrow> market \<Rightarrow> market" where
  "step tz (AddHistory smb historyCandles) m = addHistory smb historyCandles m"
| "step tz (UpdateTick smb price t) m = fst (updateTick tz smb price t m)"

definition run :: "zone \<Rightarrow> op list \<Rightarrow> market \<Rightarrow> market" where
  "run tz ops m = fold (step tz) ops m"

definition merged :: "symbol \<Rightarrow> candle list \<Rightarrow> market \<Rightarrow> candle list" where
  "merged smb historyCandles m =
     sort_key time (history m smb @
       filter (\<lambda>c. time c \<notin> set (map time (history m smb))) historyCandles)"

section \<open>Well-formed candles\<close>

text \<open>
  A candle is well-formed when its open and its close lie between its low and its high,
  as they do for every candle that \<open>updateTick\<close> aggregates.
\<close>

definition wellFormed :: "candle \<Rightarrow> bool" where
  "wellFormed c \<longleftrightarrow> low c \<le> open c \<and> open c \<le> high c \<and> low c \<le> close c \<and> close c \<le> high c"

section \<open>Risk levels\<close>

text \<open>
  \<open>slDist\<close> is the stop distance of \<open>onCandleClose\<close>, \<^verbatim>\<open>atr * 1.5\<close>. \<open>rnd\<close> is the
  rounding inside \<open>toFixed\<close> for a non-negative number.
\<close>

definition slDist :: "candle list \<Rightarrow> rat" where
  "slDist hist = num (atr hist 14) * (3 / 2)"

definition rnd :: "nat \<Rightarrow> rat \<Rightarrow> rat" where
  "rnd fd z = of_int \<lfloor>z * 10 ^ fd + 1 / 2\<rfloor> / 10 ^ fd"

text \<open>
  The webhook scanner's \<^verbatim>\<open>SignalEngine.process\<close>, steps 4 and 5, computes the risk from the
  entry price and the high and low of the signal candle: the stop is the low (for BUY) or
  the high (otherwise), replaced by a fallback when it is on the wrong side of the entry,
  and a risk of at most 0.00001 is replaced by \<^verbatim>\<open>entryPrice * 0.0005\<close>.
\<close>

definition process_risk :: "direction \<Rightarrow> rat \<Rightarrow> rat \<Rightarrow> rat \<Rightarrow> rat" where
  "process_risk dir entryPrice h l =
     (let stopLoss =
            (if dir = BUY then (if l \<ge> entryPrice then entryPrice * (9995 / 10000) else l)
             else (if h \<le> entryPrice then entryPrice * (10005 / 10000) else h));
          risk = (if dir = BUY then entryPrice - stopLoss else stopLoss - entryPrice)
      in if risk \<le> 1 / 100000 then entryPrice * (5 / 10000) else risk)"

section \<open>Concrete states\<close>

definition w_market :: market where
  "w_market = \<lparr> candles = [''BTCUSDT'' \<mapsto> []],
                 activeCandle = [''BTCUSDT'' \<mapsto> newCandle 0 1] \<rparr>"

definition late_market :: market where
  "late_market = fst (updateTick utc ''BTCUSDT'' 1 600000 empty_market)"

definition pin_prev :: candle where
  "pin_prev = \<lparr> time = 0, open = 26, high = 29, low = 26, close = 29 \<rparr>"

definition pin_current :: candle where
  "pin_current = \<lparr> time = 300000, open = 30, high = 30, low = 14, close = 25 \<rparr>"

definition eng_prev_red :: candle where
  "eng_prev_red = \<lparr> time = 0, open = 5, high = 5, low = 3, close = 3 \<rparr>"

definition eng_cur_green :: candle where
  "eng_cur_green = \<lparr> time = 300000, open = 2, high = 6, low = 2, close = 6 \<rparr>"

definition eng_prev_green :: candle where
  "eng_prev_green = \<lparr> time = 0, open = 3, high = 5, low = 3, close = 5 \<rparr>"

definition eng_cur_red :: candle where
  "eng_cur_red = \<lparr> time = 300000, open = 6, high = 6, low = 2, close = 2 \<rparr>"

definition dup_warm :: "candle list" where
  "dup_warm = [newCandle 0 1, newCandle 300000 1]"

definition dup_m0 :: market where
  "dup_m0 = addHistory ''BTCUSDT'' dup_warm empty_market"

definition dup_m1 :: market where
  "dup_m1 = fst (updateTick utc ''BTCUSDT'' 2 300000 dup_m0)"

definition dup_m2 :: market where
  "dup_m2 = fst (updateTick utc ''BTCUSDT'' 3 600000 dup_m1)"

definition bar :: "nat \<Rightarrow> candle" where
  "bar i = newCandle (int i * 300000) 1"






text \<open>
  A quiet market: a warm-up of 199 flat candles at the price 1, then three ticks of one
  bucket and the first tick of the next bucket, which closes the candle.
\<close>

definition quiet_hist :: "candle list" where
  "quiet_hist = map bar [0..<199]"

definition pin5 :: candle where
  "pin5 = \<lparr> time = 59700000, open = 100001 / 100000, high = 100002 / 100000,
            low = 99998 / 100000, close = 100002 / 100000 \<rparr>"

definition star5 :: candle where
  "star5 = \<lparr> time = 59700000, open = 99999 / 100000, high = 100002 / 100000,
             low = 99998 / 100000, close = 99998 / 100000 \<rparr>"

definition sweep5 :: candle where
  "sweep5 = \<lparr> time = 59700000, open = 1, high = 100001 / 100000,
              low = 99999 / 100000, close = 100001 / 100000 \<rparr>"

definition sweep5_calls :: "op list" where
  "sweep5_calls =
     [AddHistory ''EUR_USD'' quiet_hist,
      UpdateTick ''EUR_USD'' 1 59700000,
      UpdateTick ''EUR_USD'' (99999 / 100000) 59760000,
      UpdateTick ''EUR_USD'' (100001 / 100000) 59880000]"

definition pin5_calls :: "op list" where
  "pin5_calls =
     [AddHistory ''EUR_USD'' quiet_hist,
      UpdateTick ''EUR_USD'' (100001 / 100000) 59700000,
      UpdateTick ''EUR_USD'' (99998 / 100000) 59760000,
      UpdateTick ''EUR_USD'' (100002 / 100000) 59880000]"

definition pin5_signal :: signal_output where
  "pin5_signal =
     \<lparr> symbol = ''EUR_USD'', timeframe = ''M5'', trend = ''UPTREND'', signal = BUY,
       entry_price = 100002 / 100000, stop_loss = 100002 / 100000,
       tp1 = 100003 / 100000, tp2 = 100003 / 100000, tp3 = 100003 / 100000,
       strength_score = 85, reason = ''Uptrend (Price > SMA200) + Bullish Pattern'' \<rparr>"

definition star5_signal :: signal_output where
  "star5_signal =
     \<lparr> symbol = ''EUR_USD'', timeframe = ''M5'', trend = ''DOWNTREND'', signal = SELL,
       entry_price = 99998 / 100000, stop_loss = 99998 / 100000,
       tp1 = 99997 / 100000, tp2 = 99997 / 100000, tp3 = 99997 / 100000,
       strength_score = 85, reason = ''Downtrend (Price < SMA200) + Bearish Pattern'' \<rparr>"

definition sweep5_signal :: signal_output where
  "sweep5_signal =
     \<lparr> symbol = ''EUR_USD'', timeframe = ''M5'', trend = ''UPTREND'', signal = BUY,
       entry_price = 100001 / 100000, stop_loss = 100001 / 100000,
       tp1 = 100001 / 100000, tp2 = 100001 / 100000, tp3 = 100002 / 100000,
       strength_score = 85, reason = ''Uptrend (Price > SMA200) + Liquidity Sweep'' \<rparr>"

definition inside_prev :: candle where
  "inside_prev = \<lparr> time = 0, open = 1, high = 5, low = 1, close = 5 \<rparr>"

definition inside_current :: candle where
  "inside_current = \<lparr> time = 300000, open = 4, high = 4, low = 3, close = 3 \<rparr>"

text \<open>
  New York around the end of daylight saving time on 5 November 2023: the offset is four
  hours west until 06:00 UTC and five hours west from then on, and a local time before
  02:00 is read with the earlier offset.
\<close>

definition new_york :: zone where
  "new_york =
     \<lparr> utcOffset = (\<lambda>t. if t < 1699164000000 then - 14400000 else - 18000000),
       localOffset = (\<lambda>l. if l < 1699149600000 then - 14400000 else - 18000000) \<rparr>"

text \<open>A warm-up of 198 flat candles and one tick: the next close leaves 199 candles.\<close>

definition near_hist :: "candle list" where
  "near_hist = map bar [0..<198]"

definition near_calls :: "op list" where
  "near_calls = [AddHistory ''EUR_USD'' near_hist, UpdateTick ''EUR_USD'' 1 59400000]"

section \<open>Basic facts\<close>

declare show_nat.simps [simp del]

lemma show_nat_1: "show_nat (Suc 0) = ''1''"
  by (simp add: show_nat.simps)

lemma history_initSymbol: "history (initSymbol smb m) s = history m s"
  by (simp add: initSymbol_def history_def split: option.splits)

lemma activeCandle_initSymbol: "activeCandle (initSymbol smb m) = activeCandle m"
  by (simp add: initSymbol_def split: option.splits)

lemma initSymbol_defined: "candles m smb \<noteq> None \<Longrightarrow> initSymbol smb m = m"
  by (auto simp add: initSymbol_def split: option.splits)

lemma history_activeCandle_update: "history (m\<lparr>activeCandle := ac\<rparr>) = history m"
  by (simp add: history_def fun_eq_iff)

lemma time_newCandle: "time (newCandle t p) = t"
  by (simp add: newCandle_def)

lemma minutes_floor5: "(q::int) div 60 * 12 + q mod 60 div 5 = q div 5"
proof -
  have "q = q mod 60 + (q div 60 * 12) * 5"
    by (simp add: mult.assoc)
  then have "q div 5 = (q mod 60 + (q div 60 * 12) * 5) div 5"
    by simp
  also have "\<dots> = q div 60 * 12 + q mod 60 div 5"
    by (rule div_mult_self1) simp
  finally show ?thesis by simp
qed

lemma floor_five_minutes:
  "L div 3600000 * 3600000 + L div 60000 mod 60 div 5 * 5 * 60000 = L - L mod (300000 :: int)"
proof -
  define q where "q = L div 60000"
  have h: "L div 3600000 = q div 60"
    unfolding q_def using zdiv_zmult2_eq [of 60 L 60000] by simp
  have f: "L div 300000 = q div 5"
    unfolding q_def using zdiv_zmult2_eq [of 5 L 60000] by simp
  have "L div 3600000 * 3600000 + q mod 60 div 5 * 5 * 60000 = (q div 60 * 12 + q mod 60 div 5) * 300000"
    unfolding h by (simp add: algebra_simps)
  also have "\<dots> = L div 300000 * 300000"
    unfolding minutes_floor5 f ..
  also have "\<dots> = L - L mod 300000"
    by (simp add: minus_mod_eq_div_mult)
  finally show ?thesis
    unfolding q_def .
qed

lemma m5Start_eq:
  "m5Start z t =
     t + utcOffset z t - (t + utcOffset z t) mod 300000 -
     localOffset z (t + utcOffset z t - (t + utcOffset z t) mod 300000)"
  unfolding m5Start_def setMinutes_def getMinutes_def Let_def floor_five_minutes ..

lemma m5Start_fixed: "m5Start (fixed_zone k) t = t - (t + k) mod 300000"
  by (simp add: m5Start_eq fixed_zone_def)

lemma m5Start_fixed5: "k mod 300000 = 0 \<Longrightarrow> m5Start (fixed_zone k) t = t - t mod 300000"
proof -
  assume z: "k mod 300000 = 0"
  have "(t + k) mod 300000 = (t + k mod 300000) mod 300000"
    by (rule mod_add_right_eq [symmetric])
  then show ?thesis
    by (simp add: m5Start_fixed z)
qed

lemma m5Start_utc_eq: "m5Start utc t = t - t mod 300000"
  by (simp add: utc_def m5Start_fixed)

text \<open>
  Where the offset changes the bucket of a tick is not the five-minute floor of its
  instant: the tick of 06:47 UTC on 5 November 2023 gets the bucket of 05:45 UTC.
\<close>

lemma m5Start_new_york:
  "m5Start new_york 1699166820000 = 1699163100000 \<and>
   1699166820000 - 1699166820000 mod 300000 = (1699166700000 :: int)"
  by (simp add: m5Start_eq new_york_def)

lemma js_rem_nonneg: "0 \<le> a \<Longrightarrow> js_rem a M5_MS = a mod 300000"
  by (simp add: js_rem_def M5_MS_def)

lemma getM5BucketStart_nonneg: "0 \<le> t \<Longrightarrow> getM5BucketStart t = t - t mod 300000"
  by (simp add: getM5BucketStart_def js_rem_nonneg)

section \<open>The candle aggregator\<close>

subsection \<open>A tick in the bucket of the active candle\<close>

lemma fold_tick_eq:
  "a\<lparr>close := price, high := (if price > high a then price else high a),
      low := (if price < low a then price else low a)\<rparr> =
   \<lparr> time = time a, open = open a, high = max (high a) price, low = min (low a) price,
     close = price \<rparr>"
  by (cases a) (simp add: max_def min_def)

lemma updateTick_same_bucket_eq:
  assumes "activeCandle m smb = Some a" and "m5Start tz t = time a"
  shows "updateTick tz smb price t m =
           ((initSymbol smb m)\<lparr>activeCandle := (activeCandle m)(smb \<mapsto>
               \<lparr> time = time a, open = open a, high = max (high a) price,
                 low = min (low a) price, close = price \<rparr>)\<rparr>, None)"
  using assms
  by (simp add: updateTick_def Let_def activeCandle_initSymbol fold_tick_eq del: candle.simps)

text \<open>
  C10. A tick whose bucket is the bucket of the symbol's active candle closes nothing and
  changes only that active candle: its high becomes the maximum of the old high and the
  price, its low the minimum, its close the price, while its open and its time stay. The
  active candles of the other symbols and every history buffer are as before; in a state
  where the symbol's array exists (as in every state that \<open>updateTick\<close> or \<open>addHistory\<close>
  produced for the symbol) the whole dictionary of arrays is unchanged.
\<close>

theorem updateTick_same_bucket:
  assumes "activeCandle m smb = Some a" and "m5Start tz t = time a"
  shows "snd (updateTick tz smb price t m) = None \<and>
         activeCandle (fst (updateTick tz smb price t m)) =
           (activeCandle m)(smb \<mapsto>
             \<lparr> time = time a, open = open a, high = max (high a) price,
               low = min (low a) price, close = price \<rparr>) \<and>
         history (fst (updateTick tz smb price t m)) = history m \<and>
         (candles m smb \<noteq> None \<longrightarrow> candles (fst (updateTick tz smb price t m)) = candles m)"
  by (simp add: updateTick_same_bucket_eq [OF assms] history_activeCandle_update
      history_initSymbol initSymbol_defined fun_eq_iff)

theorem updateTick_same_bucket_witness:
  "activeCandle w_market ''BTCUSDT'' = Some (newCandle 0 1) \<and>
   m5Start utc 1000 = time (newCandle 0 1) \<and>
   snd (updateTick utc ''BTCUSDT'' 2 1000 w_market) = None \<and>
   activeCandle (fst (updateTick utc ''BTCUSDT'' 2 1000 w_market)) ''BTCUSDT'' =
     Some \<lparr> time = 0, open = 1, high = 2, low = 1, close = 2 \<rparr> \<and>
   history (fst (updateTick utc ''BTCUSDT'' 2 1000 w_market)) = history w_market \<and>
   candles w_market ''BTCUSDT'' \<noteq> None \<and>
   candles (fst (updateTick utc ''BTCUSDT'' 2 1000 w_market)) = candles w_market"
  using updateTick_same_bucket [of w_market "''BTCUSDT''" "newCandle 0 1" utc 1000 2]
  by (simp add: w_market_def newCandle_def m5Start_utc_eq)

subsection \<open>A tick in another bucket\<close>

lemma updateTick_close_event:
  assumes "snd (updateTick tz smb price t m) = Some (a, out)"
  shows "activeCandle m smb = Some a \<and> time a \<noteq> m5Start tz t \<and>
         out = onCandleClose smb a (history (fst (updateTick tz smb price t m)) smb)"
  using assms
  by (auto simp add: updateTick_def Let_def activeCandle_initSymbol history_def
      split: option.splits if_splits)

lemma updateTick_other_bucket_eq:
  assumes "activeCandle m smb = Some a" and "time a \<noteq> m5Start tz t"
  shows "updateTick tz smb price t m =
           ((initSymbol smb m)\<lparr>
               candles := (candles (initSymbol smb m))(smb \<mapsto>
                 (if length (history m smb @ [a]) > 300 then tl (history m smb @ [a])
                  else history m smb @ [a])),
               activeCandle := (activeCandle m)(smb \<mapsto> newCandle (m5Start tz t) price)\<rparr>,
            Some (a, onCandleClose smb a
                 (if length (history m smb @ [a]) > 300 then tl (history m smb @ [a])
                  else history m smb @ [a])))"
  using assms
  by (simp add: updateTick_def Let_def activeCandle_initSymbol history_initSymbol)

lemma history_candles_update:
  "history (m\<lparr>candles := (candles m)(smb \<mapsto> h)\<rparr>) smb = h"
  by (simp add: history_def)

lemma updateTick_active_time:
  "\<exists>a. activeCandle (fst (updateTick tz smb price t m)) smb = Some a \<and> time a = m5Start tz t"
  by (simp add: updateTick_def Let_def newCandle_def split: option.splits)

lemma activeCandle_updateTick_other:
  "s \<noteq> smb \<Longrightarrow> activeCandle (fst (updateTick tz smb price t m)) s = activeCandle m s"
  by (simp add: updateTick_def Let_def activeCandle_initSymbol split: option.splits)

lemma activeCandle_updateTick:
  "activeCandle (fst (updateTick tz smb price t m)) smb =
     (case activeCandle m smb of
        None \<Rightarrow> Some (newCandle (m5Start tz t) price)
      | Some a \<Rightarrow>
          if time a \<noteq> m5Start tz t then Some (newCandle (m5Start tz t) price)
          else Some \<lparr> time = time a, open = open a, high = max (high a) price,
                      low = min (low a) price, close = price \<rparr>)"
  by (simp add: updateTick_def Let_def activeCandle_initSymbol fold_tick_eq
      split: option.splits del: candle.simps)

subsection \<open>Late ticks\<close>

lemma late_market_eq:
  "late_market = \<lparr> candles = [''BTCUSDT'' \<mapsto> []],
                   activeCandle = [''BTCUSDT'' \<mapsto> newCandle 600000 1] \<rparr>"
  by (simp add: late_market_def updateTick_def empty_market_def initSymbol_def m5Start_utc_eq Let_def)

text \<open>
  C1, as stated, fails on the streamer. With the active candle in the bucket of 600000 ms
  and a tick of the bucket of 0 ms, \<open>processLine\<close> prints nothing and keeps the bucket time
  and the open, but writes the tick's price into high and close of the active candle.
\<close>

theorem late_tick_not_dropped:
  "[''EUR_USD'' \<mapsto> newCandle 600000 1] ''EUR_USD'' =
     Some \<lparr> time = 600000, open = 1, high = 1, low = 1, close = 1 \<rparr> \<and>
   getM5BucketStart 1000 < 600000 \<and>
   processLine (PRICE ''EUR_USD'' 1000 [2] [2] None None) [''EUR_USD'' \<mapsto> newCandle 600000 1] =
     ([''EUR_USD'' \<mapsto> \<lparr> time = 600000, open = 1, high = 2, low = 1, close = 2 \<rparr>], None)"
  by (simp add: newCandle_def getM5BucketStart_nonneg midPrice_def)

text \<open>
  C1, amended. For a tick whose bucket is strictly earlier than the bucket of the symbol's
  active candle, \<open>processLine\<close> closes and prints no candle and leaves the active candles
  of the other symbols as they are; the symbol's active candle keeps its bucket time and
  its open, and the tick is not dropped: its price is folded into the candle, high the
  maximum, low the minimum, close the price.
\<close>

theorem late_tick_behaviour:
  "activeCandles smb = Some c \<and> getM5BucketStart t < time c \<and>
   midPrice bids asks closeoutBid closeoutAsk = Some price \<longrightarrow>
     processLine (PRICE smb t bids asks closeoutBid closeoutAsk) activeCandles =
       (activeCandles(smb \<mapsto>
          \<lparr> time = time c, open = open c, high = max (high c) price,
            low = min (low c) price, close = price \<rparr>), None)"
proof -
  have 1: "a\<lparr>high := (if price > high a then price else high a),
              low := (if price < low a then price else low a), close := price\<rparr> =
           \<lparr> time = time a, open = open a, high = max (high a) price,
             low = min (low a) price, close = price \<rparr>" for a :: candle
    by (cases a) (simp add: max_def min_def)
  show ?thesis
    by (auto simp add: 1 simp del: candle.simps)
qed

theorem late_tick_behaviour_witness:
  "[''BTCUSDT'' \<mapsto> newCandle 600000 1] ''BTCUSDT'' = Some (newCandle 600000 1) \<and>
   getM5BucketStart 1000 < time (newCandle 600000 1) \<and>
   midPrice [2] [2] None None = Some 2 \<and>
   processLine (PRICE ''BTCUSDT'' 1000 [2] [2] None None)
       [''BTCUSDT'' \<mapsto> newCandle 600000 1] =
     ([''BTCUSDT'' \<mapsto> \<lparr> time = 600000, open = 1, high = 2, low = 1, close = 2 \<rparr>], None)"
  using late_tick_behaviour [of "[''BTCUSDT'' \<mapsto> newCandle 600000 1]" "''BTCUSDT''"
      "newCandle 600000 1" 1000 "[2]" "[2]" None None 2]
  by (simp add: newCandle_def getM5BucketStart_nonneg midPrice_def)

text \<open>
  \<open>updateTick\<close> compares the bucket of the tick with the time of the active candle for
  inequality only, so that a tick of an earlier bucket is taken for the start of a new
  candle: the unfinished active candle is appended to the history buffer and handed to
  \<open>onCandleClose\<close>. This is the append without a look at the buffered times of the section
  on candles of equal time.
\<close>

lemma late_tick_closes_active:
  "activeCandle late_market ''BTCUSDT'' = Some (newCandle 600000 1) \<and>
   m5Start utc 1000 < time (newCandle 600000 1) \<and>
   history (fst (updateTick utc ''BTCUSDT'' 2 1000 late_market)) ''BTCUSDT'' =
     [newCandle 600000 1] \<and>
   activeCandle (fst (updateTick utc ''BTCUSDT'' 2 1000 late_market)) ''BTCUSDT'' =
     Some (newCandle 0 2)"
  by (simp add: late_market_eq updateTick_def initSymbol_def history_def m5Start_utc_eq Let_def
      newCandle_def)

subsection \<open>The time of a closed candle\<close>

lemma processLine_printed:
  assumes "snd (processLine l activeCandles) = Some (s, c)"
  shows "\<exists>a. activeCandles s = Some a \<and> c = a\<lparr>time := time a + M5_MS\<rparr>"
  using assms
  by (cases l) (auto simp add: Let_def split: option.splits if_splits)

lemma processLine_first_candle:
  assumes "activeCandles smb = None"
  shows "fst (processLine (PRICE smb t bids asks cb ca) activeCandles) smb = None \<or>
         (\<exists>a. fst (processLine (PRICE smb t bids asks cb ca) activeCandles) smb = Some a \<and>
              time a = getM5BucketStart t)"
  using assms by (simp add: Let_def newCandle_def split: option.splits)

text \<open>
  C6, as stated, fails on the stand-alone streamer: the candle aggregated from the tick at
  1000 ms (bucket start 0) is printed with the time 300000, the end of its bucket.
\<close>

theorem streamer_prints_bucket_end:
  "snd (processLine (PRICE ''EUR_USD'' 300500 [2] [2] None None)
         (fst (processLine (PRICE ''EUR_USD'' 1000 [1] [1] None None) Map.empty))) =
     Some (''EUR_USD'', \<lparr> time = 300000, open = 1, high = 1, low = 1, close = 1 \<rparr>) \<and>
   (300000 :: int) \<noteq> 1000 - 1000 mod 300000"
  by (simp add: getM5BucketStart_nonneg midPrice_def newCandle_def M5_MS_def)

text \<open>
  C6, amended. The candle that \<open>updateTick\<close> closes carries the bucket start that
  \<open>m5Start\<close> gave to the tick before it, the five-minute floor of the local time read back
  as an instant; the ticks folded into a candle all have the candle's bucket (C10). In a
  zone whose offset is constant and a multiple of five minutes that is \<open>t - t mod 300000\<close>
  for the tick \<open>t\<close>. The stand-alone streamer prints the active candle with
  \<open>bucketTime + 300000\<close> as its time, the end of the bucket: for the first candle of a
  symbol that is \<open>t - t mod 300000 + 300000\<close>. The Binance streamer prints the close time
  \<open>T\<close> of the kline.
\<close>

theorem closed_candle_time:
  "(snd (updateTick tz smb p2 t2 (fst (updateTick tz smb p1 t1 m))) = Some (c, out) \<longrightarrow>
      time c = m5Start tz t1) \<and>
   (off mod 300000 = 0 \<and>
    snd (updateTick (fixed_zone off) smb p2 t2 (fst (updateTick (fixed_zone off) smb p1 t1 m))) =
      Some (c, out) \<longrightarrow>
      time c = t1 - t1 mod 300000) \<and>
   (snd (processLine l activeCandles) = Some (s, c') \<longrightarrow>
      (\<exists>a. activeCandles s = Some a \<and> c' = a\<lparr>time := time a + 300000\<rparr>)) \<and>
   (0 \<le> t1 \<and> ac0 smb = None \<and>
    snd (processLine (PRICE smb t2 b2 a2 cb2 ca2)
          (fst (processLine (PRICE smb t1 b1 a1 cb1 ca1) ac0))) = Some (s', c'') \<longrightarrow>
      time c'' = t1 - t1 mod 300000 + 300000) \<and>
   (kline_output k = Some kc \<longrightarrow> time kc = k_T k)"
proof (intro conjI impI)
  have g: "time c = m5Start z t1"
    if "snd (updateTick z smb p2 t2 (fst (updateTick z smb p1 t1 m))) = Some (c, out)" for z
  proof -
    obtain a where a: "activeCandle (fst (updateTick z smb p1 t1 m)) smb = Some a"
        "time a = m5Start z t1"
      using updateTick_active_time by blast
    from that updateTick_close_event
    have "activeCandle (fst (updateTick z smb p1 t1 m)) smb = Some c"
      by blast
    with a show ?thesis
      by simp
  qed
  {
    assume "snd (updateTick tz smb p2 t2 (fst (updateTick tz smb p1 t1 m))) = Some (c, out)"
    then show "time c = m5Start tz t1"
      by (rule g)
  next
    assume h: "off mod 300000 = 0 \<and>
      snd (updateTick (fixed_zone off) smb p2 t2
            (fst (updateTick (fixed_zone off) smb p1 t1 m))) = Some (c, out)"
    then have "time c = m5Start (fixed_zone off) t1"
      using g by blast
    with h show "time c = t1 - t1 mod 300000"
      by (simp add: m5Start_fixed5)
  }
next
  assume "snd (processLine l activeCandles) = Some (s, c')"
  then show "\<exists>a. activeCandles s = Some a \<and> c' = a\<lparr>time := time a + 300000\<rparr>"
    using processLine_printed [of l activeCandles s c'] by (simp add: M5_MS_def)
next
  assume h: "0 \<le> t1 \<and> ac0 smb = None \<and>
    snd (processLine (PRICE smb t2 b2 a2 cb2 ca2)
          (fst (processLine (PRICE smb t1 b1 a1 cb1 ca1) ac0))) = Some (s', c'')"
  let ?ac = "fst (processLine (PRICE smb t1 b1 a1 cb1 ca1) ac0)"
  from h processLine_printed obtain a where a: "?ac s' = Some a" "c'' = a\<lparr>time := time a + M5_MS\<rparr>"
    by blast
  have "s' = smb"
    using h by (auto simp add: Let_def split: option.splits if_splits)
  with a processLine_first_candle [of ac0 smb t1 b1 a1 cb1 ca1] h
  have "time a = getM5BucketStart t1"
    by auto
  with a h show "time c'' = t1 - t1 mod 300000 + 300000"
    by (simp add: getM5BucketStart_nonneg M5_MS_def)
next
  assume "kline_output k = Some kc"
  then show "time kc = k_T k"
    by (auto simp add: kline_output_def split: if_splits)
qed

theorem closed_candle_time_witness:
  "(0::int) mod 300000 = 0 \<and>
   snd (updateTick (fixed_zone 0) ''BTCUSDT'' 2 300500
         (fst (updateTick (fixed_zone 0) ''BTCUSDT'' 1 1000 empty_market))) =
     Some (newCandle 0 1, Wait ''BTCUSDT'' None ''Not enough data (1/200)'') \<and>
   time (newCandle 0 1) = m5Start (fixed_zone 0) 1000 \<and>
   time (newCandle 0 1) = 1000 - 1000 mod 300000 \<and>
   snd (processLine (PRICE ''BTCUSDT'' 300500 [2] [2] None None)
         [''BTCUSDT'' \<mapsto> newCandle 0 1]) =
     Some (''BTCUSDT'', \<lparr> time = 300000, open = 1, high = 1, low = 1, close = 1 \<rparr>) \<and>
   (0::int) \<le> 1000 \<and> (Map.empty :: symbol \<rightharpoonup> candle) ''BTCUSDT'' = None \<and>
   snd (processLine (PRICE ''BTCUSDT'' 300500 [2] [2] None None)
         (fst (processLine (PRICE ''BTCUSDT'' 1000 [1] [1] None None) Map.empty))) =
     Some (''BTCUSDT'', \<lparr> time = 300000, open = 1, high = 1, low = 1, close = 1 \<rparr>) \<and>
   time \<lparr> time = 300000, open = 1, high = 1, low = 1, close = 1 \<rparr> =
     1000 - 1000 mod 300000 + 300000 \<and>
   kline_output \<lparr> k_t = 0, k_T = 299999, k_o = 1, k_h = 1, k_l = 1, k_c = 1, k_x = True \<rparr> =
     Some \<lparr> time = 299999, open = 1, high = 1, low = 1, close = 1 \<rparr>"
  using closed_candle_time [where tz = "fixed_zone 0" and off = 0 and smb = "''BTCUSDT''"
      and ?p1.0 = 1 and ?t1.0 = 1000
      and ?p2.0 = 2 and ?t2.0 = 300500 and m = empty_market and c = "newCandle 0 1"
      and out = "Wait ''BTCUSDT'' None ''Not enough data (1/200)''"
      and l = "PRICE ''BTCUSDT'' 300500 [2] [2] None None"
      and activeCandles = "[''BTCUSDT'' \<mapsto> newCandle 0 1]" and s = "''BTCUSDT''"
      and c' = "\<lparr> time = 300000, open = 1, high = 1, low = 1, close = 1 \<rparr>"
      and ?ac0.0 = Map.empty and ?b1.0 = "[1]" and ?a1.0 = "[1]" and ?cb1.0 = None
      and ?ca1.0 = None and ?b2.0 = "[2]" and ?a2.0 = "[2]" and ?cb2.0 = None and ?ca2.0 = None
      and s' = "''BTCUSDT''" and c'' = "\<lparr> time = 300000, open = 1, high = 1, low = 1, close = 1 \<rparr>"
      and k = "\<lparr> k_t = 0, k_T = 299999, k_o = 1, k_h = 1, k_l = 1, k_c = 1, k_x = True \<rparr>"
      and kc = "\<lparr> time = 299999, open = 1, high = 1, low = 1, close = 1 \<rparr>"]
  by (simp add: updateTick_def empty_market_def initSymbol_def history_def m5Start_fixed Let_def
      newCandle_def onCandleClose_def show_nat_1 getM5BucketStart_nonneg midPrice_def M5_MS_def
      kline_output_def)

section \<open>The history buffer\<close>

lemma history_addHistory:
  "history (addHistory smb hs m) smb = drop (length (merged smb hs m) - 300) (merged smb hs m)"
  by (simp add: addHistory_def Let_def history_def merged_def initSymbol_def split: option.splits)



lemma history_updateTick_other:
  "s \<noteq> smb \<Longrightarrow> history (fst (updateTick tz smb price t m)) s = history m s"
  by (simp add: updateTick_def Let_def history_def initSymbol_def split: option.splits)

lemma history_updateTick:
  "history (fst (updateTick tz smb price t m)) smb =
     (case activeCandle m smb of
        None \<Rightarrow> history m smb
      | Some a \<Rightarrow>
          if time a \<noteq> m5Start tz t then
            (if length (history m smb) \<ge> 300 then tl (history m smb @ [a])
             else history m smb @ [a])
          else history m smb)"
  by (simp add: updateTick_def Let_def history_def initSymbol_def split: option.splits)


subsection \<open>Candles of equal time\<close>

lemma dup_m0_eq:
  "dup_m0 = \<lparr> candles = [''BTCUSDT'' \<mapsto> dup_warm], activeCandle = Map.empty \<rparr>"
  by (simp add: dup_m0_def addHistory_def empty_market_def initSymbol_def history_def Let_def
      dup_warm_def newCandle_def)

lemma dup_m1_eq:
  "dup_m1 = \<lparr> candles = [''BTCUSDT'' \<mapsto> dup_warm],
              activeCandle = [''BTCUSDT'' \<mapsto> newCandle 300000 2] \<rparr>"
  by (simp add: dup_m1_def dup_m0_eq updateTick_def initSymbol_def m5Start_utc_eq Let_def)

lemma dup_m2_eq:
  "dup_m2 = \<lparr> candles = [''BTCUSDT'' \<mapsto> dup_warm @ [newCandle 300000 2]],
              activeCandle = [''BTCUSDT'' \<mapsto> newCandle 600000 3] \<rparr>"
  by (simp add: dup_m2_def dup_m1_eq updateTick_def initSymbol_def m5Start_utc_eq Let_def history_def
      dup_warm_def newCandle_def)

lemma history_dup_m1: "history dup_m1 ''BTCUSDT'' = [newCandle 0 1, newCandle 300000 1]"
  by (simp add: dup_m1_eq history_def dup_warm_def)

lemma history_dup_m2:
  "history dup_m2 ''BTCUSDT'' = [newCandle 0 1, newCandle 300000 1, newCandle 300000 2]"
  by (simp add: dup_m2_eq history_def dup_warm_def)

lemma addHistory_dup_m1:
  "history (addHistory ''BTCUSDT'' [newCandle 300000 2] dup_m1) ''BTCUSDT'' =
     [newCandle 0 1, newCandle 300000 1]"
proof -
  have i: "initSymbol ''BTCUSDT'' dup_m1 = dup_m1"
    by (simp add: initSymbol_def dup_m1_eq)
  have f: "filter (\<lambda>c. time c \<notin> set (map time [newCandle 0 1, newCandle 300000 1]))
             [newCandle 300000 2] = []"
    by (simp add: time_newCandle)
  have s: "sort_key time [newCandle 0 1, newCandle 300000 1] =
             [newCandle 0 1, newCandle 300000 1]"
    by (simp add: time_newCandle)
  show ?thesis
    unfolding addHistory_def Let_def i history_dup_m1 f
    by (simp add: s history_def time_newCandle)
qed

text \<open>
  C3 at a concrete input. The warm-up of a symbol returns the klines of the buckets 0 and
  300000 (the second one still in progress); the live ticks of the bucket 300000 build an
  active candle with that time, and the first tick of the next bucket appends it to a
  history buffer that already holds a candle of that time. The same candle offered to
  \<open>addHistory\<close> is rejected.
\<close>

theorem live_close_appends_duplicate:
  "history dup_m1 ''BTCUSDT'' = [newCandle 0 1, newCandle 300000 1] \<and>
   activeCandle dup_m1 ''BTCUSDT'' = Some (newCandle 300000 2) \<and>
   time (newCandle 300000 2) = time (newCandle 300000 1) \<and>
   history (fst (updateTick utc ''BTCUSDT'' 3 600000 dup_m1)) ''BTCUSDT'' =
     [newCandle 0 1, newCandle 300000 1, newCandle 300000 2] \<and>
   history (addHistory ''BTCUSDT'' [newCandle 300000 2] dup_m1) ''BTCUSDT'' =
     [newCandle 0 1, newCandle 300000 1]"
  using history_dup_m1 history_dup_m2 addHistory_dup_m1
  by (simp add: dup_m2_def time_newCandle) (simp add: dup_m1_eq)

text \<open>
  C2 at a concrete input: after the warm-up and the two live ticks above the times of the
  history buffer are 0, 300000, 300000, neither strictly increasing nor unique.
\<close>

theorem history_times_repeat:
  "dup_m0 = addHistory ''BTCUSDT'' [newCandle 0 1, newCandle 300000 1] empty_market \<and>
   dup_m1 = fst (updateTick utc ''BTCUSDT'' 2 300000 dup_m0) \<and>
   dup_m2 = fst (updateTick utc ''BTCUSDT'' 3 600000 dup_m1) \<and>
   map time (history dup_m2 ''BTCUSDT'') = [0, 300000, 300000] \<and>
   \<not> sorted_wrt (<) (map time (history dup_m2 ''BTCUSDT'')) \<and>
   \<not> distinct (map time (history dup_m2 ''BTCUSDT''))"
proof -
  have "map time (history dup_m2 ''BTCUSDT'') = [0, 300000, 300000]"
    by (simp add: history_dup_m2 time_newCandle)
  then show ?thesis
    by (simp add: dup_m2_def dup_m1_def dup_m0_def dup_warm_def)
qed

subsection \<open>Capacity and eviction\<close>















lemma sorted_merged: "sorted (map time (merged smb hs m))"
  by (simp add: merged_def)







subsection \<open>When the order is kept\<close>

text \<open>
  \<open>addHistory\<close> always leaves the symbol's buffer sorted by time, and strictly so when the
  buffer and the batch each had no two candles of one time. A close in \<open>updateTick\<close> keeps
  a strictly increasing buffer strictly increasing when the active candle is later than
  every buffered candle.
\<close>

lemma map_insort_key: "map f (insort_key f x xs) = insort (f x) (map f xs)"
  by (induction xs) simp_all

lemma map_sort_key: "map f (sort_key f xs) = sort (map f xs)"
  by (induction xs) (simp_all add: map_insort_key)

lemma sorted_history_addHistory: "sorted (map time (history (addHistory smb hs m) smb))"
  unfolding history_addHistory drop_map [symmetric]
  using sorted_merged [of smb hs m] by (rule sorted_wrt_drop)

lemma strict_history_addHistory:
  assumes "distinct (map time (history m smb))" and "distinct (map time hs)"
  shows "sorted_wrt (<) (map time (history (addHistory smb hs m) smb))"
proof -
  let ?F = "filter (\<lambda>c. time c \<notin> set (map time (history m smb))) hs"
  have "distinct (map time ?F)"
    using assms(2) by (rule distinct_map_filter)
  moreover have "set (map time (history m smb)) \<inter> set (map time ?F) = {}"
    by (auto simp add: image_iff)
  ultimately have "distinct (map time (history m smb @ ?F))"
    using assms(1) by simp
  then have "distinct (map time (merged smb hs m))"
    unfolding merged_def map_sort_key by simp
  then have "sorted_wrt (<) (map time (merged smb hs m))"
    using sorted_merged [of smb hs m] by (simp add: strict_sorted_iff)
  then show ?thesis
    unfolding history_addHistory drop_map [symmetric] by (rule sorted_wrt_drop)
qed

lemma strict_history_updateTick:
  assumes "sorted_wrt (<) (map time (history m smb))"
    and "\<forall>a. activeCandle m smb = Some a \<longrightarrow> (\<forall>x \<in> set (history m smb). time x < time a)"
  shows "sorted_wrt (<) (map time (history (fst (updateTick tz smb price t m)) smb))"
proof (cases "activeCandle m smb")
  case None
  with assms(1) show ?thesis
    by (simp add: history_updateTick)
next
  case (Some a)
  with assms have s: "sorted_wrt (<) (map time (history m smb @ [a]))"
    by (simp add: sorted_wrt_append)
  then have "sorted_wrt (<) (drop 1 (map time (history m smb @ [a])))"
    by (rule sorted_wrt_drop)
  then have "sorted_wrt (<) (map time (tl (history m smb @ [a])))"
    unfolding drop_Suc drop_0 One_nat_def map_tl .
  with s Some assms(1) show ?thesis
    by (simp add: history_updateTick)
qed

section \<open>Pattern classification\<close>

text \<open>
  C5, as stated, fails: a red candle that engulfs the green candle before it in the
  symmetric sense, and has a long lower wick, is classified BULLISH, since the bullish
  tests come first.
\<close>

theorem bearish_engulfing_classified_bullish:
  "close pin_current < open pin_current \<and> close pin_prev > open pin_prev \<and>
   close pin_current < open pin_prev \<and> open pin_current > close pin_prev \<and>
   detectPattern [pin_prev, pin_current] = Some BULLISH"
  by (simp add: detectPattern_def pin_prev_def pin_current_def classify_def isPinBarBullish_def
      wickBottom_def wickTop_def bodySize_def)

text \<open>
  C5, amended. On at least two candles \<open>detectPattern\<close> returns BULLISH for the bullish
  engulfing (current green, previous red, current close above the previous open, current
  open below the previous close), and BEARISH for the symmetric bearish engulfing (current
  red, previous green, current close below the previous open, current open above the
  previous close) unless the current candle is a bullish pin bar.
\<close>

theorem detectPattern_engulfing:
  assumes "2 \<le> length cs"
      and "current = cs ! (length cs - 1)" and "prev = cs ! (length cs - 2)"
  shows "(close current > open current \<and> close prev < open prev \<and>
          close current > open prev \<and> open current < close prev \<longrightarrow>
            detectPattern cs = Some BULLISH) \<and>
         (close current < open current \<and> close prev > open prev \<and>
          close current < open prev \<and> open current > close prev \<and>
          \<not> isPinBarBullish current \<longrightarrow>
            detectPattern cs = Some BEARISH)"
  using assms
  by (auto simp add: detectPattern_def Let_def classify_def isBullishEngulfing_def
      isBearishEngulfing_def)

theorem detectPattern_engulfing_witness:
  "2 \<le> length [eng_prev_red, eng_cur_green] \<and>
   close eng_cur_green > open eng_cur_green \<and> close eng_prev_red < open eng_prev_red \<and>
   close eng_cur_green > open eng_prev_red \<and> open eng_cur_green < close eng_prev_red \<and>
   detectPattern [eng_prev_red, eng_cur_green] = Some BULLISH \<and>
   2 \<le> length [eng_prev_green, eng_cur_red] \<and>
   close eng_cur_red < open eng_cur_red \<and> close eng_prev_green > open eng_prev_green \<and>
   close eng_cur_red < open eng_prev_green \<and> open eng_cur_red > close eng_prev_green \<and>
   \<not> isPinBarBullish eng_cur_red \<and>
   detectPattern [eng_prev_green, eng_cur_red] = Some BEARISH"
  using detectPattern_engulfing [of "[eng_prev_red, eng_cur_green]" eng_cur_green eng_prev_red]
    detectPattern_engulfing [of "[eng_prev_green, eng_cur_red]" eng_cur_red eng_prev_green]
  by (simp add: eng_prev_red_def eng_cur_green_def eng_prev_green_def eng_cur_red_def
      isPinBarBullish_def wickBottom_def wickTop_def bodySize_def)

text \<open>
  The bearish engulfing test of the source compares the current close with the previous
  close and the current open with the previous open. The symmetric condition implies it,
  and it also holds for a red candle inside the body of the green candle before it.
\<close>

lemma symmetric_implies_isBearishEngulfing:
  assumes "close current < open current" and "close prev > open prev"
    and "close current < open prev" and "open current > close prev"
  shows "isBearishEngulfing prev current"
  using assms by (simp add: isBearishEngulfing_def)

lemma inside_bar_is_bearish:
  "\<not> close inside_current < open inside_prev \<and>
   \<not> open inside_current > close inside_prev \<and>
   \<not> isPinBarBearish inside_current \<and>
   detectPattern [inside_prev, inside_current] = Some BEARISH"
  by (simp add: detectPattern_def inside_prev_def inside_current_def classify_def
      isPinBarBullish_def isPinBarBearish_def isBullishEngulfing_def isBearishEngulfing_def
      wickBottom_def wickTop_def bodySize_def)

section \<open>The decision\<close>

subsection \<open>Insufficient history\<close>

text \<open>
  C8, amended. When the history buffer that \<open>onCandleClose\<close> reads (the symbol's array with
  the candle just closed already appended) holds fewer than 200 candles, the decision is
  the WAIT object with the reason "Not enough data (n/200)", whatever the candles are, and
  so is the decision of every candle close of \<open>updateTick\<close> that leaves such a buffer. In
  terms of the buffer before the close: with at most 198 candles buffered, a tick that
  closes the active candle prints that WAIT object, with the count of the buffered
  candles plus one, and no signal.
\<close>

theorem insufficient_history_wait:
  "(length hist < 200 \<longrightarrow>
      onCandleClose smb c hist =
        Wait smb None (''Not enough data ('' @ show_nat (length hist) @ ''/200)'')) \<and>
   (snd (updateTick tz smb price t m) = Some (a, out) \<and>
    history (fst (updateTick tz smb price t m)) smb = hist \<and> length hist < 200 \<longrightarrow>
      out = Wait smb None (''Not enough data ('' @ show_nat (length hist) @ ''/200)'')) \<and>
   (activeCandle m smb = Some a \<and> time a \<noteq> m5Start tz t \<and>
    length (history m smb) < 199 \<longrightarrow>
      snd (updateTick tz smb price t m) =
        Some (a, Wait smb None
          (''Not enough data ('' @ show_nat (Suc (length (history m smb))) @ ''/200)'')))"
proof -
  have w: "onCandleClose smb c hist =
      Wait smb None (''Not enough data ('' @ show_nat (length hist) @ ''/200)'')"
    if "length hist < 200" for c hist
    using that by (simp add: onCandleClose_def)
  have 1: "length hist < 200 \<longrightarrow>
      onCandleClose smb c hist =
        Wait smb None (''Not enough data ('' @ show_nat (length hist) @ ''/200)'')"
    using w by blast
  have 2: "snd (updateTick tz smb price t m) = Some (a, out) \<and>
      history (fst (updateTick tz smb price t m)) smb = hist \<and> length hist < 200 \<longrightarrow>
      out = Wait smb None (''Not enough data ('' @ show_nat (length hist) @ ''/200)'')"
    using w updateTick_close_event by blast
  have 3: "activeCandle m smb = Some a \<and> time a \<noteq> m5Start tz t \<and>
      length (history m smb) < 199 \<longrightarrow>
      snd (updateTick tz smb price t m) =
        Some (a, Wait smb None
          (''Not enough data ('' @ show_nat (Suc (length (history m smb))) @ ''/200)''))"
    using w [of "history m smb @ [a]" a]
    by (auto simp add: updateTick_other_bucket_eq)
  from 1 2 3 show ?thesis
    by (intro conjI)
qed

lemma near_state:
  "activeCandle (run utc near_calls empty_market) ''EUR_USD'' = Some (newCandle 59400000 1) \<and>
   length (history (run utc near_calls empty_market) ''EUR_USD'') = 198"
  by code_simp

lemma show_nat_199: "show_nat (Suc 198) = ''199''"
  by code_simp

lemma near_after:
  "history (fst (updateTick utc ''EUR_USD'' 1 59700000 (run utc near_calls empty_market)))
     ''EUR_USD'' = near_hist @ [newCandle 59400000 1]"
  by code_simp

theorem insufficient_history_wait_witness:
  "length (near_hist @ [newCandle 59400000 1]) < 200 \<and>
   onCandleClose ''EUR_USD'' (newCandle 59400000 1) (near_hist @ [newCandle 59400000 1]) =
     Wait ''EUR_USD'' None ''Not enough data (199/200)'' \<and>
   activeCandle (run utc near_calls empty_market) ''EUR_USD'' = Some (newCandle 59400000 1) \<and>
   time (newCandle 59400000 1) \<noteq> m5Start utc 59700000 \<and>
   length (history (run utc near_calls empty_market) ''EUR_USD'') < 199 \<and>
   snd (updateTick utc ''EUR_USD'' 1 59700000 (run utc near_calls empty_market)) =
     Some (newCandle 59400000 1, Wait ''EUR_USD'' None ''Not enough data (199/200)'') \<and>
   history (fst (updateTick utc ''EUR_USD'' 1 59700000 (run utc near_calls empty_market)))
     ''EUR_USD'' = near_hist @ [newCandle 59400000 1]"
proof -
  let ?m = "run utc near_calls empty_market" and ?a = "newCandle 59400000 1"
  let ?h = "near_hist @ [?a]"
  have l: "length ?h = Suc 198"
    by (simp add: near_hist_def del: upt_rec_numeral)
  then have l2: "length ?h < 200"
    by simp
  have a: "activeCandle ?m ''EUR_USD'' = Some ?a"
    and n: "length (history ?m ''EUR_USD'') = 198"
    using near_state by simp_all
  have b: "time ?a \<noteq> m5Start utc 59700000"
    by (simp add: time_newCandle m5Start_utc_eq)
  have n2: "length (history ?m ''EUR_USD'') < 199"
    using n by simp
  note t = insufficient_history_wait [where hist = ?h and smb = "''EUR_USD''" and c = ?a
      and tz = utc and price = 1 and t = 59700000 and m = ?m and a = ?a]
  have o: "onCandleClose ''EUR_USD'' ?a ?h = Wait ''EUR_USD'' None ''Not enough data (199/200)''"
    using t l2 unfolding l show_nat_199 by simp
  have s: "snd (updateTick utc ''EUR_USD'' 1 59700000 ?m) =
      Some (?a, Wait ''EUR_USD'' None ''Not enough data (199/200)'')"
    using t a b n2 unfolding n show_nat_199 by simp
  show ?thesis
    by (intro conjI l2 o a b n2 s near_after)
qed

text \<open>
  C8, as stated, fails at the boundary. After a warm-up of 199 candles the buffer holds
  fewer than 200 closed candles; the close of the next candle makes it 200, the strategy
  runs, and here it prints a BUY.
\<close>

lemma pin5_close:
  "snd (updateTick utc ''EUR_USD'' (100002 / 100000) 60000000 (run utc pin5_calls empty_market)) =
     Some (pin5, Signal pin5_signal)"
  by code_simp

theorem close_at_199_signals:
  "length (history (run utc pin5_calls empty_market) ''EUR_USD'') = 199 \<and>
   snd (updateTick utc ''EUR_USD'' (100002 / 100000) 60000000 (run utc pin5_calls empty_market)) =
     Some (pin5, Signal pin5_signal) \<and>
   signal pin5_signal = BUY"
proof -
  have "length (history (run utc pin5_calls empty_market) ''EUR_USD'') = 199"
    by code_simp
  moreover have "signal pin5_signal = BUY"
    by (simp add: pin5_signal_def)
  ultimately show ?thesis
    using pin5_close by simp
qed

subsection \<open>Rounding\<close>

lemma rnd_mono: "z \<le> z' \<Longrightarrow> rnd fd z \<le> rnd fd z'"
  unfolding rnd_def
  by (intro divide_right_mono iffD2 [OF of_int_le_iff] floor_mono add_right_mono
      mult_right_mono) simp_all

lemma rnd_nonneg: "0 \<le> z \<Longrightarrow> 0 \<le> rnd fd z"
  unfolding rnd_def by (intro divide_nonneg_nonneg) simp_all

lemma floor_half: "\<lfloor>1 / 2 :: rat\<rfloor> = 0"
  by (simp add: floor_eq_iff)

lemma rnd_zero: "rnd fd 0 = 0"
  by (simp add: rnd_def floor_half)

lemma rnd_bound:
  assumes "z < 10 ^ 21"
  shows "rnd fd z \<le> 10 ^ 21"
proof -
  have "z * 10 ^ fd < 10 ^ 21 * 10 ^ fd"
    using assms by simp
  then have "z * 10 ^ fd + 1 / 2 < 10 ^ 21 * 10 ^ fd + 1"
    by linarith
  then have "z * 10 ^ fd + 1 / 2 < of_int (10 ^ 21 * 10 ^ fd + 1)"
    by simp
  then have "\<lfloor>z * 10 ^ fd + 1 / 2\<rfloor> < 10 ^ 21 * 10 ^ fd + 1"
    by (simp only: floor_less_iff)
  then have "\<lfloor>z * 10 ^ fd + 1 / 2\<rfloor> \<le> 10 ^ 21 * 10 ^ fd"
    by simp
  then have "(of_int \<lfloor>z * 10 ^ fd + 1 / 2\<rfloor> :: rat) \<le> of_int (10 ^ 21 * 10 ^ fd)"
    by (simp only: of_int_le_iff)
  then have "(of_int \<lfloor>z * 10 ^ fd + 1 / 2\<rfloor> :: rat) / 10 ^ fd \<le> 10 ^ 21 * 10 ^ fd / 10 ^ fd"
    by (intro divide_right_mono) simp_all
  then show ?thesis
    by (simp add: rnd_def)
qed

lemma toFixed_rnd:
  "toFixed x fd =
     (if 10 ^ 21 \<le> \<bar>x\<bar> then x else if 0 \<le> x then rnd fd x else - rnd fd (- x))"
  by (simp add: toFixed_def rnd_def sgn_if floor_half)

lemma toFixed_mono:
  assumes "x \<le> y"
  shows "toFixed x fd \<le> toFixed y fd"
proof -
  consider (bb) "10 ^ 21 \<le> \<bar>x\<bar>" "10 ^ 21 \<le> \<bar>y\<bar>"
    | (bs) "10 ^ 21 \<le> \<bar>x\<bar>" "\<bar>y\<bar> < 10 ^ 21"
    | (sb) "\<bar>x\<bar> < 10 ^ 21" "10 ^ 21 \<le> \<bar>y\<bar>"
    | (ss) "\<bar>x\<bar> < 10 ^ 21" "\<bar>y\<bar> < 10 ^ 21"
    by linarith
  then show ?thesis
  proof cases
    case bb
    then show ?thesis using assms by (simp add: toFixed_rnd)
  next
    case bs
    then have x: "x \<le> - (10 ^ 21)"
      using assms by linarith
    have "- (10 ^ 21) \<le> (if 0 \<le> y then rnd fd y else - rnd fd (- y))"
    proof (cases "0 \<le> y")
      case True
      then show ?thesis
        using rnd_nonneg [of y fd] by simp
    next
      case False
      then have "rnd fd (- y) \<le> 10 ^ 21"
        using bs by (intro rnd_bound) linarith
      with False show ?thesis by simp
    qed
    with x bs show ?thesis
      by (simp add: toFixed_rnd)
  next
    case sb
    then have y: "10 ^ 21 \<le> y"
      using assms by linarith
    have "(if 0 \<le> x then rnd fd x else - rnd fd (- x)) \<le> 10 ^ 21"
    proof (cases "0 \<le> x")
      case True
      then have "rnd fd x \<le> 10 ^ 21"
        using sb by (intro rnd_bound) linarith
      with True show ?thesis by simp
    next
      case False
      then have "0 \<le> rnd fd (- x)"
        by (intro rnd_nonneg) simp
      with False show ?thesis by simp
    qed
    with y sb show ?thesis
      by (simp add: toFixed_rnd)
  next
    case ss
    have "(if 0 \<le> x then rnd fd x else - rnd fd (- x)) \<le>
          (if 0 \<le> y then rnd fd y else - rnd fd (- y))"
    proof (cases "0 \<le> x")
      case True
      with assms have "0 \<le> y" by simp
      with True assms show ?thesis
        by (simp add: rnd_mono)
    next
      case False
      show ?thesis
      proof (cases "0 \<le> y")
        case True
        have "- rnd fd (- x) \<le> 0"
          using False rnd_nonneg [of "- x" fd] by simp
        also have "0 \<le> rnd fd y"
          using True by (rule rnd_nonneg)
        finally show ?thesis
          using False True by simp
      next
        case y: False
        have "rnd fd (- y) \<le> rnd fd (- x)"
          using assms by (intro rnd_mono) simp
        with False y show ?thesis by simp
      qed
    qed
    with ss show ?thesis
      by (simp add: toFixed_rnd)
  qed
qed

subsection \<open>Stop distance\<close>

lemma trueRange_nonneg: "0 \<le> trueRange p c"
  by (simp add: trueRange_def le_max_iff_disj)

lemma atr_nonneg: "0 \<le> num (atr cs n)"
proof (cases "length cs < n + 1")
  case True
  then show ?thesis by (simp add: atr_def)
next
  case False
  have "0 \<le> sum_list (map (\<lambda>i. trueRange (cs ! (i - 1)) (cs ! i)) [length cs - n ..< length cs])"
    by (rule sum_list_nonneg) (auto simp add: trueRange_nonneg)
  then have "0 \<le> sum_list (map (\<lambda>i. trueRange (cs ! (i - 1)) (cs ! i))
      [length cs - n ..< length cs]) / of_nat n"
    by (rule divide_nonneg_nonneg) simp
  with False show ?thesis by (simp add: atr_def)
qed

lemma slDist_nonneg: "0 \<le> slDist hist"
  by (simp add: slDist_def atr_nonneg)

lemma onCandleClose_Signal:
  assumes "onCandleClose smb c hist = Signal out"
  shows "(signal out = BUY \<or> signal out = SELL) \<and>
         entry_price out = toFixed (close c) 5 \<and>
         stop_loss out =
           toFixed (if signal out = BUY then close c - slDist hist else close c + slDist hist) 5 \<and>
         tp1 out = toFixed (if signal out = BUY then close c + slDist hist * (3 / 2)
                            else close c - slDist hist * (3 / 2)) 5 \<and>
         tp2 out = toFixed (if signal out = BUY then close c + slDist hist * 2
                            else close c - slDist hist * 2) 5 \<and>
         tp3 out = toFixed (if signal out = BUY then close c + slDist hist * 3
                            else close c - slDist hist * 3) 5"
proof -
  have r: "\<bar>slDist hist\<bar> = slDist hist"
    using slDist_nonneg by simp
  show ?thesis
    using assms
    unfolding onCandleClose_def Let_def slDist_def [symmetric]
    by (auto simp add: r split: if_splits)
qed

lemma Math_max_ge: "x \<le> Math_max x ys \<and> (\<forall>y \<in> set ys. y \<le> Math_max x ys)"
proof (induction ys arbitrary: x)
  case Nil
  then show ?case by simp
next
  case (Cons y ys)
  from Cons.IH [of "max x y"] show ?case
    by (auto simp add: max_def split: if_splits)
qed

lemma Math_min_le: "Math_min x ys \<le> x \<and> (\<forall>y \<in> set ys. Math_min x ys \<le> y)"
proof (induction ys arbitrary: x)
  case Nil
  then show ?case by simp
next
  case (Cons y ys)
  from Cons.IH [of "min x y"] show ?case
    by (auto simp add: min_def split: if_splits)
qed

lemma trueRange_zero:
  assumes "trueRange p c = 0"
  shows "high c = close p \<and> low c = close p"
proof -
  have "\<bar>high c - close p\<bar> \<le> 0" and "\<bar>low c - close p\<bar> \<le> 0"
    using assms unfolding trueRange_def by (metis max.cobounded1 max.cobounded2 order_trans)+
  then show ?thesis by simp
qed

lemma prev_in_window:
  assumes "10 \<le> length cs"
  shows "cs ! (length cs - 2) \<in> set (slice_lookback cs 10)"
proof -
  let ?k = "length cs - 10" and ?j = "length cs - 2 - (length cs - 10)"
  have w: "slice_lookback cs 10 = drop ?k (butlast cs)"
    by (simp add: slice_lookback_def butlast_drop)
  have l: "?j < length (drop ?k (butlast cs))"
    using assms by simp
  have "drop ?k (butlast cs) ! ?j = butlast cs ! (?k + ?j)"
    using assms by (intro nth_drop) simp
  also have "?k + ?j = length cs - 2"
    using assms by simp
  also have "butlast cs ! (length cs - 2) = cs ! (length cs - 2)"
    using assms by (simp add: nth_butlast)
  finally show ?thesis
    unfolding w using nth_mem [OF l] by simp
qed

lemma detectSweep_flat:
  assumes "10 \<le> length cs"
    and "high (cs ! (length cs - 1)) \<le> high (cs ! (length cs - 2))"
    and "low (cs ! (length cs - 2)) \<le> low (cs ! (length cs - 1))"
  shows "detectSweep cs 10 = Some NONE"
proof (cases "slice_lookback cs 10")
  case Nil
  with assms(1) show ?thesis
    by (auto simp add: detectSweep_def)
next
  case (Cons w ws)
  let ?p = "cs ! (length cs - 2)"
  have "?p \<in> set (w # ws)"
    using prev_in_window [OF assms(1)] Cons by simp
  then have "high ?p \<le> Math_max (high w) (map high ws)"
    and "Math_min (low w) (map low ws) \<le> low ?p"
    using Math_max_ge [of "high w" "map high ws"] Math_min_le [of "low w" "map low ws"]
    by auto
  with assms Cons show ?thesis
    by (auto simp add: detectSweep_def Let_def)
qed

lemma detectPattern_doji:
  assumes "2 \<le> length cs"
    and "open (cs ! (length cs - 1)) = close (cs ! (length cs - 1))"
    and "high (cs ! (length cs - 1)) = close (cs ! (length cs - 1))"
    and "low (cs ! (length cs - 1)) = close (cs ! (length cs - 1))"
  shows "detectPattern cs = Some NEUTRAL"
  using assms
  by (auto simp add: detectPattern_def Let_def classify_def isPinBarBullish_def
      isPinBarBearish_def isBullishEngulfing_def isBearishEngulfing_def wickTop_def
      wickBottom_def bodySize_def)

lemma atr_zero_last_two:
  assumes "200 \<le> length cs" and "num (atr cs 14) = 0"
  shows "trueRange (cs ! (length cs - 2)) (cs ! (length cs - 1)) = 0 \<and>
         trueRange (cs ! (length cs - 3)) (cs ! (length cs - 2)) = 0"
proof -
  let ?f = "\<lambda>i. trueRange (cs ! (i - 1)) (cs ! i)"
  have "sum_list (map ?f [length cs - 14 ..< length cs]) = 0"
    using assms by (simp add: atr_def)
  then have z: "\<forall>x \<in> set (map ?f [length cs - 14 ..< length cs]). x = 0"
    by (subst (asm) sum_list_nonneg_eq_0_iff) (auto simp add: trueRange_nonneg)
  have a: "?f i = 0" if "length cs - 14 \<le> i" and "i < length cs" for i
    using z that by simp
  have "?f (length cs - 1) = 0"
    using assms(1) by (intro a) simp_all
  moreover have "?f (length cs - 2) = 0"
    using assms(1) by (intro a) simp_all
  moreover have "length cs - 1 - 1 = length cs - 2" "length cs - 2 - 1 = length cs - 3"
    by simp_all
  ultimately show ?thesis by simp
qed

lemma signal_positive_atr:
  assumes "\<forall>x \<in> set hist. wellFormed x" and "onCandleClose smb c hist = Signal out"
  shows "0 < num (atr hist 14)"
proof (rule ccontr)
  assume "\<not> 0 < num (atr hist 14)"
  then have z: "num (atr hist 14) = 0"
    using atr_nonneg [of hist 14] by simp
  have n: "200 \<le> length hist"
    using assms(2) by (auto simp add: onCandleClose_def split: if_splits)
  let ?cur = "hist ! (length hist - 1)" and ?prv = "hist ! (length hist - 2)"
  from atr_zero_last_two [OF n z]
  have c: "high ?cur = close ?prv" "low ?cur = close ?prv"
    and p: "high ?prv = low ?prv"
    using trueRange_zero by metis+
  have "wellFormed ?cur" and "wellFormed ?prv"
    using assms(1) n by simp_all
  with c p have e: "open ?cur = close ?cur" "high ?cur = close ?cur" "low ?cur = close ?cur"
      "high ?cur \<le> high ?prv" "low ?prv \<le> low ?cur"
    by (auto simp add: wellFormed_def)
  have "detectPattern hist = Some NEUTRAL"
    using n e by (intro detectPattern_doji) simp_all
  moreover have "detectSweep hist 10 = Some NONE"
    using n e by (intro detectSweep_flat) simp_all
  ultimately have "\<exists>w r. onCandleClose smb c hist = Wait smb w r"
    using n by (simp add: onCandleClose_def Let_def)
  with assms(2) show False by auto
qed

lemma wellFormed_newCandle: "wellFormed (newCandle t p)"
  by (simp add: wellFormed_def newCandle_def)

lemma wellFormed_updateTick:
  assumes "\<forall>x \<in> set (history m s). wellFormed x"
    and "\<forall>a. activeCandle m s = Some a \<longrightarrow> wellFormed a"
  shows "(\<forall>x \<in> set (history (fst (updateTick tz smb price t m)) s). wellFormed x) \<and>
         (\<forall>a. activeCandle (fst (updateTick tz smb price t m)) s = Some a \<longrightarrow> wellFormed a)"
proof (cases "s = smb")
  case False
  with assms show ?thesis
    by (simp add: history_updateTick_other activeCandle_updateTick_other)
next
  case True
  have t: "set (tl xs) \<subseteq> set xs" for xs :: "candle list"
    by (cases xs) auto
  have h: "\<forall>x \<in> set (history (fst (updateTick tz smb price t m)) smb). wellFormed x"
    using assms t [of "history m smb @ [the (activeCandle m smb)]"] unfolding True
    by (auto simp add: history_updateTick split: option.splits if_splits)
  have a: "\<forall>a. activeCandle (fst (updateTick tz smb price t m)) smb = Some a \<longrightarrow> wellFormed a"
    using assms(2) unfolding True
    by (auto simp add: activeCandle_updateTick newCandle_def wellFormed_def
        split: option.splits if_splits)
  from h a show ?thesis
    unfolding True by blast
qed

subsection \<open>Stop and targets\<close>

lemma pin5_decision:
  "onCandleClose ''EUR_USD'' pin5 (quiet_hist @ [pin5]) = Signal pin5_signal"
  by code_simp

text \<open>
  C7, as stated, fails on the printed values. After 199 flat candles at 1.00000 and the
  ticks 1.00001, 0.99998, 1.00002, the close of the candle prints a BUY whose stop loss
  equals the entry price (1.00002) and whose three targets are all 1.00003: the distances
  are below the fifth decimal place and the rounding removes them.
\<close>

theorem rounded_levels_collapse:
  "snd (updateTick utc ''EUR_USD'' (100002 / 100000) 60000000 (run utc pin5_calls empty_market)) =
     Some (pin5, Signal pin5_signal) \<and>
   signal pin5_signal = BUY \<and>
   \<not> stop_loss pin5_signal < entry_price pin5_signal \<and>
   \<not> tp1 pin5_signal < tp2 pin5_signal \<and>
   \<not> tp2 pin5_signal < tp3 pin5_signal"
  using pin5_close by (simp add: pin5_signal_def)

text \<open>
  C7, amended. For every signal of \<open>onCandleClose\<close>, with entry the close of the candle and
  the stop distance \<open>slDist\<close> (ATR(14) times 1.5): a BUY has the stop \<open>entry - slDist\<close>, the
  risk \<open>\<bar>entry - stop\<bar>\<close> and the targets \<open>entry + risk * {1.5, 2, 3}\<close>; when ATR(14) is
  positive, as it is for every signal on a buffer of well-formed candles, the stop is below
  the entry and the targets increase strictly. The printed fields are these values rounded
  to 5 decimal places, and satisfy \<open>stop_loss \<le> entry_price \<le> tp1 \<le> tp2 \<le> tp3\<close>. A SELL
  is symmetric.
\<close>

theorem signal_levels:
  assumes "onCandleClose smb c hist = Signal out"
  shows "(signal out = BUY \<or> signal out = SELL) \<and>
         entry_price out = toFixed (close c) 5 \<and>
         (list_all wellFormed hist \<longrightarrow> 0 < num (atr hist 14)) \<and>
         (signal out = BUY \<longrightarrow>
            (let entry = close c; sl = entry - slDist hist; risk = \<bar>entry - sl\<bar> in
               stop_loss out = toFixed sl 5 \<and>
               tp1 out = toFixed (entry + risk * (3 / 2)) 5 \<and>
               tp2 out = toFixed (entry + risk * 2) 5 \<and>
               tp3 out = toFixed (entry + risk * 3) 5 \<and>
               (0 < num (atr hist 14) \<longrightarrow>
                  sl < entry \<and> entry + risk * (3 / 2) < entry + risk * 2 \<and>
                  entry + risk * 2 < entry + risk * 3)) \<and>
            stop_loss out \<le> entry_price out \<and> entry_price out \<le> tp1 out \<and>
            tp1 out \<le> tp2 out \<and> tp2 out \<le> tp3 out) \<and>
         (signal out = SELL \<longrightarrow>
            (let entry = close c; sl = entry + slDist hist; risk = \<bar>entry - sl\<bar> in
               stop_loss out = toFixed sl 5 \<and>
               tp1 out = toFixed (entry - risk * (3 / 2)) 5 \<and>
               tp2 out = toFixed (entry - risk * 2) 5 \<and>
               tp3 out = toFixed (entry - risk * 3) 5 \<and>
               (0 < num (atr hist 14) \<longrightarrow>
                  entry < sl \<and> entry - risk * 2 < entry - risk * (3 / 2) \<and>
                  entry - risk * 3 < entry - risk * 2)) \<and>
            entry_price out \<le> stop_loss out \<and> tp1 out \<le> entry_price out \<and>
            tp2 out \<le> tp1 out \<and> tp3 out \<le> tp2 out)"
proof -
  note s = onCandleClose_Signal [OF assms]
  have d: "0 \<le> slDist hist"
    by (rule slDist_nonneg)
  have p: "0 < num (atr hist 14) \<Longrightarrow> 0 < slDist hist"
    by (simp add: slDist_def)
  have buy: "signal out = BUY \<Longrightarrow>
      stop_loss out \<le> entry_price out \<and> entry_price out \<le> tp1 out \<and>
      tp1 out \<le> tp2 out \<and> tp2 out \<le> tp3 out"
    using s d by (auto intro!: toFixed_mono)
  have sell: "signal out = SELL \<Longrightarrow>
      entry_price out \<le> stop_loss out \<and> tp1 out \<le> entry_price out \<and>
      tp2 out \<le> tp1 out \<and> tp3 out \<le> tp2 out"
    using s d by (auto intro!: toFixed_mono)
  have a: "\<bar>close c - (close c - slDist hist)\<bar> = slDist hist"
      "\<bar>close c - (close c + slDist hist)\<bar> = slDist hist"
    using d by simp_all
  have b: "signal out \<noteq> BUY" if "signal out = SELL"
    using that by simp
  have buy_raw: "signal out = BUY \<Longrightarrow>
      stop_loss out = toFixed (close c - slDist hist) 5 \<and>
      tp1 out = toFixed (close c + slDist hist * (3 / 2)) 5 \<and>
      tp2 out = toFixed (close c + slDist hist * 2) 5 \<and>
      tp3 out = toFixed (close c + slDist hist * 3) 5"
    using s by simp
  have sell_raw: "signal out = SELL \<Longrightarrow>
      stop_loss out = toFixed (close c + slDist hist) 5 \<and>
      tp1 out = toFixed (close c - slDist hist * (3 / 2)) 5 \<and>
      tp2 out = toFixed (close c - slDist hist * 2) 5 \<and>
      tp3 out = toFixed (close c - slDist hist * 3) 5"
    using s b by simp
  have strict: "0 < num (atr hist 14) \<Longrightarrow>
      close c - slDist hist < close c \<and> close c < close c + slDist hist \<and>
      slDist hist * (3 / 2) < slDist hist * 2 \<and> slDist hist * 2 < slDist hist * 3"
    using p by simp
  have w: "list_all wellFormed hist \<longrightarrow> 0 < num (atr hist 14)"
    using signal_positive_atr [OF _ assms] by (simp add: list_all_iff)
  show ?thesis
    unfolding Let_def a
    using s buy sell buy_raw sell_raw strict w by simp
qed

lemma star5_decision:
  "onCandleClose ''EUR_USD'' star5 (quiet_hist @ [star5]) = Signal star5_signal"
  by code_simp

lemma star5_atr: "num (atr (quiet_hist @ [star5]) 14) = 1 / 350000"
  by code_simp

theorem signal_levels_witness:
  "onCandleClose ''EUR_USD'' pin5 (quiet_hist @ [pin5]) = Signal pin5_signal \<and>
   list_all wellFormed (quiet_hist @ [pin5]) \<and>
   signal pin5_signal = BUY \<and>
   0 < num (atr (quiet_hist @ [pin5]) 14) \<and>
   stop_loss pin5_signal = toFixed (close pin5 - slDist (quiet_hist @ [pin5])) 5 \<and>
   close pin5 - slDist (quiet_hist @ [pin5]) < close pin5 \<and>
   stop_loss pin5_signal \<le> entry_price pin5_signal \<and>
   entry_price pin5_signal \<le> tp1 pin5_signal \<and>
   tp1 pin5_signal \<le> tp2 pin5_signal \<and>
   tp2 pin5_signal \<le> tp3 pin5_signal \<and>
   onCandleClose ''EUR_USD'' star5 (quiet_hist @ [star5]) = Signal star5_signal \<and>
   signal star5_signal = SELL \<and>
   0 < num (atr (quiet_hist @ [star5]) 14) \<and>
   stop_loss star5_signal = toFixed (close star5 + slDist (quiet_hist @ [star5])) 5 \<and>
   close star5 < close star5 + slDist (quiet_hist @ [star5]) \<and>
   entry_price star5_signal \<le> stop_loss star5_signal \<and>
   tp1 star5_signal \<le> entry_price star5_signal \<and>
   tp2 star5_signal \<le> tp1 star5_signal \<and>
   tp3 star5_signal \<le> tp2 star5_signal"
proof -
  have b: "signal pin5_signal = BUY" and s: "signal star5_signal = SELL"
    by (simp_all add: pin5_signal_def star5_signal_def)
  have wf: "list_all wellFormed (quiet_hist @ [pin5])"
    unfolding list_all_iff
    by (auto simp add: quiet_hist_def bar_def wellFormed_newCandle)
      (simp add: wellFormed_def pin5_def)
  have pa: "0 < num (atr (quiet_hist @ [pin5]) 14)"
    using signal_levels [OF pin5_decision] wf by blast
  have sa: "0 < num (atr (quiet_hist @ [star5]) 14)"
    by (simp add: star5_atr)
  have p1: "stop_loss pin5_signal = toFixed (close pin5 - slDist (quiet_hist @ [pin5])) 5"
    and p2: "close pin5 - slDist (quiet_hist @ [pin5]) < close pin5"
    and p3: "stop_loss pin5_signal \<le> entry_price pin5_signal"
    and p4: "entry_price pin5_signal \<le> tp1 pin5_signal"
    and p5: "tp1 pin5_signal \<le> tp2 pin5_signal"
    and p6: "tp2 pin5_signal \<le> tp3 pin5_signal"
    using signal_levels [OF pin5_decision, unfolded Let_def] b pa by blast+
  have q1: "stop_loss star5_signal = toFixed (close star5 + slDist (quiet_hist @ [star5])) 5"
    and q2: "close star5 < close star5 + slDist (quiet_hist @ [star5])"
    and q3: "entry_price star5_signal \<le> stop_loss star5_signal"
    and q4: "tp1 star5_signal \<le> entry_price star5_signal"
    and q5: "tp2 star5_signal \<le> tp1 star5_signal"
    and q6: "tp3 star5_signal \<le> tp2 star5_signal"
    using signal_levels [OF star5_decision, unfolded Let_def] s sa by blast+
  show ?thesis
    by (intro conjI pin5_decision star5_decision wf b s pa sa p1 p2 p3 p4 p5 p6 q1 q2 q3 q4 q5
        q6)
qed

subsection \<open>No floor for the risk\<close>

lemma process_risk_positive: "0 < entryPrice \<Longrightarrow> 0 < process_risk dir entryPrice h l"
  by (auto simp add: process_risk_def Let_def)

text \<open>
  C4 at a concrete input. After 199 flat candles at 1.00000 and the ticks 1.00000, 0.99999,
  1.00001, the close of the candle prints a BUY (uptrend and bullish sweep). The stop
  distance is \<open>3 / 1400000\<close>, about 0.000002; the risk is used as it is, and the first and
  second target are printed equal to the entry price. \<open>process_risk\<close> of the webhook scanner
  replaces such a risk by \<open>entryPrice * 0.0005\<close> (\<open>process_risk_positive\<close>).
\<close>

theorem atr_risk_not_clamped:
  "snd (updateTick utc ''EUR_USD'' (100001 / 100000) 60000000
         (run utc sweep5_calls empty_market)) = Some (sweep5, Signal sweep5_signal) \<and>
   slDist (quiet_hist @ [sweep5]) = 3 / 1400000 \<and>
   signal sweep5_signal = BUY \<and>
   tp1 sweep5_signal = entry_price sweep5_signal \<and>
   tp2 sweep5_signal = entry_price sweep5_signal"
  by code_simp

end
